theory Spec2Isabelle
  imports Complex_Main "HOL-Library.Word" "HOL-Library.AList"
begin

section \<open>Data model\<close>

text \<open>
  A JavaScript string is a sequence of UTF-16 code units and \<open>.length\<close> counts them,
  so message text is a list of 16-bit words.  \<open>str\<close> turns an ASCII literal of the
  source into that representation.
\<close>

type_synonym code_unit = "16 word"
type_synonym jsstring = "code_unit list"

definition str :: "string \<Rightarrow> jsstring" where
  "str s = map of_char s"

text \<open>
  \<^verbatim>\<open>interface Message { id; role: 'user' | 'assistant' | 'system'; content; timestamp; conversationId? }\<close>
  (types/index.ts).  A \<open>Date\<close> is its time value, an integer number of milliseconds.
\<close>

datatype Role = User | Assistant | System

record Message =
  msg_id :: jsstring
  role :: Role
  content :: jsstring
  timestamp :: int
  conversationId :: "jsstring option"

section \<open>ContextManager: token estimate and trimming (services/contextManager.ts)\<close>

definition MAX_TOKENS :: int where
  "MAX_TOKENS = 4000"

definition MAX_MESSAGES :: nat where
  "MAX_MESSAGES = 30"

definition KEEP_RECENT_MESSAGES :: nat where
  "KEEP_RECENT_MESSAGES = 10"

text \<open>\<^verbatim>\<open>Math.ceil(message.content.length / 4) + 10\<close>\<close>

definition estimateTokens :: "Message \<Rightarrow> int" where
  "estimateTokens message = \<lceil>real (length (content message)) / 4\<rceil> + 10"

text \<open>\<^verbatim>\<open>messages.reduce((total, msg) => total + this.estimateTokens(msg), 0)\<close>\<close>

definition calculateTotalTokens :: "Message list \<Rightarrow> int" where
  "calculateTotalTokens messages = foldl (\<lambda>total msg. total + estimateTokens msg) 0 messages"

text \<open>
  \<^verbatim>\<open>xs.slice(-n)\<close> for \<open>n > 0\<close>: the last \<open>n\<close> elements, the whole array when it
  is shorter.  \<^verbatim>\<open>xs.splice(1, 1)\<close> removes the element at index 1, if there is one.
\<close>

definition slice_last :: "nat \<Rightarrow> 'a list \<Rightarrow> 'a list" where
  "slice_last n xs = drop (length xs - n) xs"

definition splice_1_1 :: "'a list \<Rightarrow> 'a list" where
  "splice_1_1 xs = take 1 xs @ drop 2 xs"

text \<open>
  The \<^verbatim>\<open>while\<close> loop of \<open>trimConversation\<close>, on the local array \<open>trimmedMessages\<close>:
  \<^verbatim>\<open>
  while (trimmedMessages.length > 2 && this.calculateTotalTokens(trimmedMessages) > this.MAX_TOKENS) {
    if (trimmedMessages.length > 2) { trimmedMessages.splice(1, 1); }
  }\<close>
\<close>

function trim_loop :: "Message list \<Rightarrow> Message list" where
  "trim_loop trimmedMessages =
     (if length trimmedMessages > 2 \<and> calculateTotalTokens trimmedMessages > MAX_TOKENS
      then trim_loop (if length trimmedMessages > 2 then splice_1_1 trimmedMessages
                      else trimmedMessages)
      else trimmedMessages)"
  by pat_completeness auto
termination
  by (relation "measure length") (auto simp: splice_1_1_def)

definition trimConversation :: "Message list \<Rightarrow> Message list" where
  "trimConversation messages =
     (let systemMessage = find (\<lambda>msg. role msg = System) messages;
          nonSystemMessages = filter (\<lambda>msg. role msg \<noteq> System) messages
      in if length nonSystemMessages \<le> MAX_MESSAGES \<and>
            calculateTotalTokens messages \<le> MAX_TOKENS
         then messages
         else let trimmedMessages = (case systemMessage of Some s \<Rightarrow> [s] | None \<Rightarrow> []);
                  recentMessages = slice_last KEEP_RECENT_MESSAGES nonSystemMessages
              in trim_loop (trimmedMessages @ recentMessages))"

section \<open>ContextManager: eviction predicate and message validation\<close>

text \<open>
  \<^verbatim>\<open>shouldCleanupConversation(lastActivity)\<close> reads the clock itself (\<^verbatim>\<open>new Date()\<close>);
  the reading is the parameter \<open>now\<close>.  Time values are integers, and the quotient
  is taken in the reals.  The engine computes it in doubles, with the same outcome
  of the comparison: rounding is monotone, 24 is a double, a difference of at most
  86400000 gives a quotient of at most 24, and the quotient of 86400001 lies above
  24 by far more than the spacing of doubles there.
\<close>

definition shouldCleanupConversation :: "int \<Rightarrow> int \<Rightarrow> bool" where
  "shouldCleanupConversation now lastActivity =
     (let hoursSinceActivity = real_of_int (now - lastActivity) / (1000 * 60 * 60)
      in hoursSinceActivity > 24)"

text \<open>
  \<^verbatim>\<open>String.prototype.trim\<close> strips ECMAScript WhiteSpace and LineTerminator code units
  from both ends; the class \<^verbatim>\<open>\s\<close> of a regular expression is the same set.
\<close>

definition isWhiteSpace :: "code_unit \<Rightarrow> bool" where
  "isWhiteSpace c \<longleftrightarrow>
     c \<in> set [0x0009, 0x000A, 0x000B, 0x000C, 0x000D, 0x0020, 0x00A0, 0x1680,
               0x2028, 0x2029, 0x202F, 0x205F, 0x3000, 0xFEFF] \<or>
     (0x2000 \<le> c \<and> c \<le> 0x200A)"

definition trim :: "jsstring \<Rightarrow> jsstring" where
  "trim s = rev (dropWhile isWhiteSpace (rev (dropWhile isWhiteSpace s)))"

text \<open>
  The four patterns carry the flag \<^verbatim>\<open>i\<close> and not \<^verbatim>\<open>u\<close>: a pattern letter matches
  its two ASCII cases only (canonicalisation never maps a code unit above 127 to
  one below 128), and \<^verbatim>\<open>\w\<close> is \<^verbatim>\<open>[A-Za-z0-9_]\<close>.
\<close>

definition isWordChar :: "code_unit \<Rightarrow> bool" where
  "isWordChar c \<longleftrightarrow>
     (0x30 \<le> c \<and> c \<le> 0x39) \<or> (0x41 \<le> c \<and> c \<le> 0x5A) \<or> c = 0x5F \<or>
     (0x61 \<le> c \<and> c \<le> 0x7A)"

definition canonicalize :: "code_unit \<Rightarrow> code_unit" where
  "canonicalize c = (if 0x61 \<le> c \<and> c \<le> 0x7A then c - 0x20 else c)"

text \<open>
  \<open>literal_ci lit s\<close>: the input \<open>s\<close> starts with the ASCII literal \<open>lit\<close> up to
  case; the result is the input after the literal.
\<close>

fun literal_ci :: "jsstring \<Rightarrow> jsstring \<Rightarrow> jsstring option" where
  "literal_ci [] s = Some s"
| "literal_ci (p # ps) [] = None"
| "literal_ci (p # ps) (c # cs) =
     (if canonicalize c = canonicalize p then literal_ci ps cs else None)"

text \<open>
  A match of each pattern at the start of the input.  \<^verbatim>\<open>\w\<close>, \<^verbatim>\<open>\s\<close> and the
  closing \<^verbatim>\<open>=\<close> or \<^verbatim>\<open>(\<close> are pairwise disjoint, so the greedy quantifiers match
  exactly when the longest runs do and backtracking finds nothing more.
\<close>

definition match_javascript :: "jsstring \<Rightarrow> bool" where
  "match_javascript s = (literal_ci (str ''javascript:'') s \<noteq> None)"

definition match_script :: "jsstring \<Rightarrow> bool" where
  "match_script s =
     (case literal_ci (str ''<script'') s of
        None \<Rightarrow> False
      | Some rest \<Rightarrow> (case rest of [] \<Rightarrow> True | c # _ \<Rightarrow> \<not> isWordChar c))"

definition match_on_handler :: "jsstring \<Rightarrow> bool" where
  "match_on_handler s =
     (case literal_ci (str ''on'') s of
        None \<Rightarrow> False
      | Some rest \<Rightarrow>
          takeWhile isWordChar rest \<noteq> [] \<and>
          (case dropWhile isWhiteSpace (dropWhile isWordChar rest) of
             [] \<Rightarrow> False
           | c # _ \<Rightarrow> c = 0x3D))"

definition match_eval :: "jsstring \<Rightarrow> bool" where
  "match_eval s =
     (case literal_ci (str ''eval'') s of
        None \<Rightarrow> False
      | Some rest \<Rightarrow>
          (case dropWhile isWhiteSpace rest of [] \<Rightarrow> False | c # _ \<Rightarrow> c = 0x28))"

text \<open>\<^verbatim>\<open>pattern.test(content)\<close>: a match starting at some index of the input.\<close>

fun regex_test :: "(jsstring \<Rightarrow> bool) \<Rightarrow> jsstring \<Rightarrow> bool" where
  "regex_test pattern [] = pattern []"
| "regex_test pattern (c # cs) = (pattern (c # cs) \<or> regex_test pattern cs)"

definition maliciousPatterns :: "(jsstring \<Rightarrow> bool) list" where
  "maliciousPatterns = [match_javascript, match_script, match_on_handler, match_eval]"

text \<open>
  The request body is untyped at run time: \<open>JSOther\<close> is any value that is not a
  string (\<^verbatim>\<open>undefined\<close>, a number, an object).  In \<open>validateMessage\<close> the
  parameter \<^verbatim>\<open>content\<close> is the bound variable \<open>text\<close>, \<open>content\<close> being a field
  of \<open>Message\<close> here.
\<close>

datatype js_value = JSString jsstring | JSOther

record ValidationResult =
  valid :: bool
  error :: "jsstring option"

definition validateMessage :: "js_value \<Rightarrow> ValidationResult" where
  "validateMessage v =
     (case v of
        JSOther \<Rightarrow>
          \<lparr>valid = False, error = Some (str ''Message content must be a non-empty string'')\<rparr>
      | JSString text \<Rightarrow>
          if text = [] then
            \<lparr>valid = False, error = Some (str ''Message content must be a non-empty string'')\<rparr>
          else if length (trim text) = 0 then
            \<lparr>valid = False, error = Some (str ''Message cannot be empty'')\<rparr>
          else if length text > 10000 then
            \<lparr>valid = False,
             error = Some (str ''Message is too long (maximum 10,000 characters)'')\<rparr>
          else if list_ex (\<lambda>pattern. regex_test pattern text) maliciousPatterns then
            \<lparr>valid = False,
             error = Some (str ''Message contains potentially unsafe content'')\<rparr>
          else \<lparr>valid = True, error = None\<rparr>)"

section \<open>Session store and periodic sweep (routes/chat.ts)\<close>

text \<open>
  \<^verbatim>\<open>const conversations = new Map<string, { messages: Message[]; lastActivity: Date }>()\<close>.
  A JavaScript \<open>Map\<close> keeps its entries in insertion order, one per key: it is an
  association list with distinct keys.  \<^verbatim>\<open>get\<close> is \<open>map_of\<close>, \<^verbatim>\<open>has\<close> is
  \<open>map_of \<dots> \<noteq> None\<close>, \<^verbatim>\<open>set\<close> is \<open>AList.update\<close> (an existing key keeps its
  place, a new one goes last) and \<^verbatim>\<open>delete\<close> is \<open>AList.delete\<close>.
\<close>

record ConversationData =
  messages :: "Message list"
  lastActivity :: int

type_synonym Conversations = "(jsstring \<times> ConversationData) list"

text \<open>
  The body of the \<^verbatim>\<open>setInterval\<close> callback, run once with the clock at \<open>now\<close>:
  \<^verbatim>\<open>
  for (const [conversationId, conversation] of conversations.entries()) {
    if (contextManager.shouldCleanupConversation(conversation.lastActivity)) {
      conversations.delete(conversationId);
    }
  }\<close>
  The loop visits the entries in order and deletes from the map it iterates.
\<close>

definition cleanup_sweep :: "int \<Rightarrow> Conversations \<Rightarrow> Conversations" where
  "cleanup_sweep now conversations =
     fold (\<lambda>(conversationId, conversation) cs.
             if shouldCleanupConversation now (lastActivity conversation)
             then AList.delete conversationId cs else cs)
          conversations conversations"

section \<open>The chat request handler (routes/chat.ts, \<^verbatim>\<open>router.post('/')\<close>)\<close>

text \<open>
  What the handler takes from outside is a record: the identifiers \<^verbatim>\<open>uuidv4()\<close>
  returns, the clock readings of each \<^verbatim>\<open>new Date()\<close>, and the completion provider
  (services/openai.ts).  \<open>chatCompletion\<close> resolves with a text or throws;
  \<open>chatCompletionStream\<close> yields chunks and then ends or throws.
\<close>

datatype ProviderResult = Returned jsstring | Threw

datatype StreamResult = StreamEnded "jsstring list" | StreamThrew "jsstring list"

record Env =
  uuid_conversation :: jsstring
  uuid_system :: jsstring
  uuid_user :: jsstring
  uuid_assistant :: jsstring
  date_system :: int
  date_created :: int
  date_user :: int
  date_trimmed :: int
  date_assistant :: int
  date_done :: int
  chatCompletion :: "Message list \<Rightarrow> ProviderResult"
  chatCompletionStream :: "Message list \<Rightarrow> StreamResult"

record ChatRequest =
  req_message :: js_value
  req_conversationId :: "jsstring option"
  req_stream :: bool

text \<open>
  The reply: \<^verbatim>\<open>res.json(\<dots>)\<close>, the server-sent events written to \<^verbatim>\<open>res\<close>, or the
  error handed to \<^verbatim>\<open>next(error)\<close> with its \<^verbatim>\<open>statusCode\<close>, if set.
\<close>

datatype StreamEvent =
    ChunkEvent jsstring jsstring jsstring
  | DoneEvent jsstring jsstring jsstring
  | ErrorEvent jsstring

datatype Response =
    Json jsstring jsstring jsstring int
  | EventStream "StreamEvent list"
  | NextError jsstring "int option"

text \<open>
  The outcome of one request: the map afterwards, the reply, and the array the
  provider was called with, if it was called.
\<close>

record Outcome =
  store :: Conversations
  response :: Response
  sent :: "Message list option"

definition addSystemMessage :: "Env \<Rightarrow> Message" where
  "addSystemMessage env =
     \<lparr>msg_id = uuid_system env, role = System,
      content = str (''You are a helpful AI assistant. Be concise, friendly, and informative '' @
                     ''in your responses. Keep your answers clear and well-structured.''),
      timestamp = date_system env, conversationId = None\<rparr>"

text \<open>\<^verbatim>\<open>conversationId || uuidv4()\<close>: a missing or empty identifier is replaced.\<close>

definition currentConversationId :: "Env \<Rightarrow> ChatRequest \<Rightarrow> jsstring" where
  "currentConversationId env req =
     (case req_conversationId req of
        None \<Rightarrow> uuid_conversation env
      | Some c \<Rightarrow> if c = [] then uuid_conversation env else c)"

definition userMessage :: "Env \<Rightarrow> jsstring \<Rightarrow> jsstring \<Rightarrow> Message" where
  "userMessage env cid message =
     \<lparr>msg_id = uuid_user env, role = User, content = trim message,
      timestamp = date_user env, conversationId = Some cid\<rparr>"

definition assistantMessage :: "Env \<Rightarrow> jsstring \<Rightarrow> jsstring \<Rightarrow> Message" where
  "assistantMessage env cid text =
     \<lparr>msg_id = uuid_assistant env, role = Assistant, content = text,
      timestamp = date_assistant env, conversationId = Some cid\<rparr>"

text \<open>
  The session the request works on: the entry of the map, or the one created with
  a single system message when the map has none.
\<close>

definition conversationData :: "Env \<Rightarrow> Conversations \<Rightarrow> jsstring \<Rightarrow> ConversationData" where
  "conversationData env conversations cid =
     (case map_of conversations cid of
        None \<Rightarrow> \<lparr>messages = [addSystemMessage env], lastActivity = date_created env\<rparr>
      | Some d \<Rightarrow> d)"

text \<open>
  The handler.  \<^verbatim>\<open>conversationMessages.push(userMessage)\<close> appends to the session's own
  array; the result of \<open>trimConversation\<close> is then assigned to
  \<^verbatim>\<open>conversationData.messages\<close>, and the assistant message is pushed onto that array.
  A value that is not a string never passes the validation; if it did,
  \<^verbatim>\<open>message.trim()\<close> would throw a TypeError for the outer \<^verbatim>\<open>catch\<close>, which is the
  branch \<open>JSOther\<close>.  Requests are handled one at a time: nothing else touches the
  map while the provider is awaited.
\<close>

definition chat_post :: "Env \<Rightarrow> ChatRequest \<Rightarrow> Conversations \<Rightarrow> Outcome" where
  "chat_post env req conversations =
     (let validation = validateMessage (req_message req) in
      if \<not> valid validation then
        \<lparr>store = conversations,
         response = NextError (case error validation of
                                 None \<Rightarrow> str ''Invalid message''
                               | Some e \<Rightarrow> if e = [] then str ''Invalid message'' else e)
                              (Some 400),
         sent = None\<rparr>
      else case req_message req of
        JSOther \<Rightarrow>
          \<lparr>store = conversations, response = NextError (str ''TypeError'') None, sent = None\<rparr>
      | JSString message \<Rightarrow>
          let cid = currentConversationId env req;
              conversations1 =
                (if map_of conversations cid = None
                 then AList.update cid (conversationData env conversations cid) conversations
                 else conversations);
              pushed = messages (conversationData env conversations cid) @
                       [userMessage env cid message];
              conversationMessages = trimConversation pushed;
              conversations2 =
                AList.update cid
                  \<lparr>messages = conversationMessages, lastActivity = date_trimmed env\<rparr>
                  conversations1;
              stored = (\<lambda>text.
                AList.update cid
                  \<lparr>messages = conversationMessages @ [assistantMessage env cid text],
                   lastActivity = date_done env\<rparr>
                  conversations2);
              chunkEvents = map (\<lambda>chunk. ChunkEvent chunk (uuid_assistant env) cid)
          in if req_stream req then
               (case chatCompletionStream env conversationMessages of
                  StreamEnded chunks \<Rightarrow>
                    \<lparr>store = stored (concat chunks),
                     response = EventStream
                       (chunkEvents chunks @
                        [DoneEvent (uuid_assistant env) cid (concat chunks)]),
                     sent = Some conversationMessages\<rparr>
                | StreamThrew chunks \<Rightarrow>
                    \<lparr>store = conversations2,
                     response = EventStream
                       (chunkEvents chunks @
                        [ErrorEvent (str ''Failed to generate response'')]),
                     sent = Some conversationMessages\<rparr>)
             else
               (case chatCompletion env conversationMessages of
                  Returned text \<Rightarrow>
                    \<lparr>store = stored text,
                     response = Json text cid (uuid_assistant env) (date_assistant env),
                     sent = Some conversationMessages\<rparr>
                | Threw \<Rightarrow>
                    \<lparr>store = conversations2,
                     response = NextError (str ''Failed to generate response from AI'') None,
                     sent = Some conversationMessages\<rparr>))"

section \<open>Concrete inputs\<close>

text \<open>
  Turns and requests on which the theorems below are instantiated.  \<open>turn\<close> builds
  a message from an identifier, a role and a text; \<open>letters n\<close> is the letter
  \<^verbatim>\<open>a\<close> repeated \<open>n\<close> times, \<^verbatim>\<open>"a".repeat(n)\<close>; \<open>padded_letter\<close> is one
  letter followed by 10000 spaces.
\<close>

definition turn :: "string \<Rightarrow> Role \<Rightarrow> jsstring \<Rightarrow> Message" where
  "turn i r c = \<lparr>msg_id = str i, role = r, content = c, timestamp = 0, conversationId = None\<rparr>"

definition letters :: "nat \<Rightarrow> jsstring" where
  "letters n = replicate n 0x61"

definition padded_letter :: jsstring where
  "padded_letter = letters 1 @ replicate 10000 0x20"

definition short_dialogue :: "Message list" where
  "short_dialogue = [turn ''s'' System (str ''Be brief.''), turn ''u'' User (str ''Hi'')]"

definition late_system_dialogue :: "Message list" where
  "late_system_dialogue =
     [turn ''u'' User (str ''Hi''), turn ''s1'' System (str ''Be brief.''),
      turn ''s2'' System (str ''Be kind.'')]"

definition heavy_dialogue :: "Message list" where
  "heavy_dialogue =
     [turn ''u1'' User (letters 8000), turn ''s'' System (str ''Be brief.''),
      turn ''a1'' Assistant (letters 8000), turn ''u2'' User (str ''Hi'')]"

definition two_heavy_systems :: "Message list" where
  "two_heavy_systems = [turn ''s1'' System (letters 8000), turn ''s2'' System (letters 8000)]"

definition one_huge_turn :: "Message list" where
  "one_huge_turn = [turn ''s'' System (str ''Be brief.''), turn ''u'' User (letters 20000)]"

definition forty_turns :: "Message list" where
  "forty_turns =
     map (\<lambda>i. \<lparr>msg_id = [of_nat i], role = (if even i then User else Assistant),
               content = letters 160, timestamp = int i, conversationId = None\<rparr>)
         [0..<40]"

text \<open>
  A map with one session idle for 25 hours and one idle for 1 hour at the time
  \<open>sweep_time\<close> (milliseconds).
\<close>

definition sweep_time :: int where
  "sweep_time = 200 * 3600000"

definition two_sessions :: Conversations where
  "two_sessions =
     [(str ''idle'', \<lparr>messages = short_dialogue, lastActivity = sweep_time - 25 * 3600000\<rparr>),
      (str ''busy'', \<lparr>messages = short_dialogue, lastActivity = sweep_time - 1 * 3600000\<rparr>)]"

text \<open>
  Requests.  \<open>env_ok\<close> is an environment whose provider answers \<^verbatim>\<open>ok\<close>;
  in \<open>env_down\<close> the provider throws, in streaming mode after one chunk.
  \<open>grown_store\<close> holds the session \<^verbatim>\<open>c1\<close> after one exchange of two long
  messages.
\<close>

definition env_ok :: Env where
  "env_ok =
     \<lparr>uuid_conversation = str ''c0'', uuid_system = str ''s0'', uuid_user = str ''u2'',
      uuid_assistant = str ''a2'', date_system = 100, date_created = 100, date_user = 101,
      date_trimmed = 102, date_assistant = 200, date_done = 201,
      chatCompletion = (\<lambda>_. Returned (str ''ok'')),
      chatCompletionStream = (\<lambda>_. StreamEnded [str ''o'', str ''k''])\<rparr>"

definition env_down :: Env where
  "env_down =
     \<lparr>uuid_conversation = str ''c0'', uuid_system = str ''s0'', uuid_user = str ''u2'',
      uuid_assistant = str ''a2'', date_system = 100, date_created = 100, date_user = 101,
      date_trimmed = 102, date_assistant = 200, date_done = 201,
      chatCompletion = (\<lambda>_. Threw),
      chatCompletionStream = (\<lambda>_. StreamThrew [str ''o''])\<rparr>"

definition first_turns :: "Message list" where
  "first_turns =
     [turn ''s'' System (str ''Be brief.''), turn ''u1'' User (letters 8000),
      turn ''a1'' Assistant (letters 8000)]"

definition grown_store :: Conversations where
  "grown_store = [(str ''c1'', \<lparr>messages = first_turns, lastActivity = 60\<rparr>)]"

definition request_hi :: "bool \<Rightarrow> ChatRequest" where
  "request_hi streaming =
     \<lparr>req_message = JSString (str '' Hi ''), req_conversationId = Some (str ''c1''),
      req_stream = streaming\<rparr>"

section \<open>Properties of the token estimate and of trimming\<close>

lemmas limits_defs = MAX_TOKENS_def MAX_MESSAGES_def KEEP_RECENT_MESSAGES_def

lemma estimateTokens_div:
  "estimateTokens m = int ((length (content m) + 3) div 4) + 10"
proof -
  define n where "n = length (content m)"
  have "real n / 4 = of_int (int n) / of_int 4" by simp
  hence "\<lceil>real n / 4\<rceil> = - (- int n div 4)"
    by (simp only: ceiling_divide_eq_div)
  also have "\<dots> = (int n + 3) div 4" by presburger
  also have "\<dots> = int ((n + 3) div 4)" by (simp add: zdiv_int)
  finally have "\<lceil>real n / 4\<rceil> = int ((n + 3) div 4)" .
  thus ?thesis by (simp add: estimateTokens_def n_def)
qed

lemma foldl_add_sum_list:
  "foldl (\<lambda>total msg. total + f msg) a xs = (a::int) + sum_list (map f xs)"
  by (induction xs arbitrary: a) simp_all

lemma calculateTotalTokens_sum:
  "calculateTotalTokens ms = sum_list (map estimateTokens ms)"
  by (simp add: calculateTotalTokens_def foldl_add_sum_list)

declare trim_loop.simps [simp del]

lemma trim_loop_shape: "\<exists>k. trim_loop t = take 1 t @ drop (Suc k) t"
proof (induction t rule: trim_loop.induct)
  case (1 t)
  show ?case
  proof (cases "length t > 2 \<and> calculateTotalTokens t > MAX_TOKENS")
    case True
    then obtain k where k: "trim_loop (splice_1_1 t) = take 1 (splice_1_1 t) @ drop (Suc k) (splice_1_1 t)"
      using 1 by auto
    from True obtain x y r where t: "t = x # y # r" 
      by (cases t; cases "tl t") auto
    have "trim_loop t = trim_loop (splice_1_1 t)"
      using True by (subst trim_loop.simps) simp
    also have "\<dots> = take 1 t @ drop (Suc (Suc k)) t"
      using k by (simp add: t splice_1_1_def)
    finally show ?thesis by blast
  next
    case False
    hence "trim_loop t = t" by (subst trim_loop.simps) auto
    moreover have "t = take 1 t @ drop (Suc 0) t"
      by (cases t) auto
    ultimately show ?thesis by metis
  qed
qed

lemma trim_loop_stop:
  "\<not> (length (trim_loop t) > 2 \<and> calculateTotalTokens (trim_loop t) > MAX_TOKENS)"
proof (induction t rule: trim_loop.induct)
  case (1 t)
  show ?case
  proof (cases "length t > 2 \<and> calculateTotalTokens t > MAX_TOKENS")
    case True
    hence "trim_loop t = trim_loop (splice_1_1 t)"
      by (subst trim_loop.simps) simp
    thus ?thesis using 1 True by auto
  next
    case False
    hence "trim_loop t = t" by (subst trim_loop.simps) auto
    thus ?thesis using False by simp
  qed
qed

lemma trim_loop_fix:
  "\<not> (length t > 2 \<and> calculateTotalTokens t > MAX_TOKENS) \<Longrightarrow> trim_loop t = t"
  by (subst trim_loop.simps) auto

lemma trim_loop_idem: "trim_loop (trim_loop t) = trim_loop t"
  by (rule trim_loop_fix) (rule trim_loop_stop)

lemma trim_loop_length_ge: "min 2 (length t) \<le> length (trim_loop t)"
proof (induction t rule: trim_loop.induct)
  case (1 t)
  show ?case
  proof (cases "length t > 2 \<and> calculateTotalTokens t > MAX_TOKENS")
    case True
    hence "trim_loop t = trim_loop (splice_1_1 t)"
      by (subst trim_loop.simps) simp
    moreover have "min 2 (length (splice_1_1 t)) = 2"
      using True by (auto simp: splice_1_1_def min_def)
    ultimately show ?thesis using 1 True by auto
  next
    case False
    thus ?thesis by (simp add: trim_loop_fix)
  qed
qed

lemma slice_last_short: "length xs \<le> n \<Longrightarrow> slice_last n xs = xs"
  by (simp add: slice_last_def)

lemma length_slice_last: "length (slice_last n xs) = min n (length xs)"
  by (simp add: slice_last_def)

lemma find_system_None:
  "find (\<lambda>msg. role msg = System) xs = None \<longleftrightarrow> filter (\<lambda>msg. role msg \<noteq> System) xs = xs"
  by (induction xs) (auto simp: filter_id_conv dest: filter_eq_ConsD)

lemma trim_fixpoint:
  assumes pre: "pre = [] \<or> (\<exists>s. pre = [s] \<and> role s = System)"
    and xs: "filter (\<lambda>msg. role msg \<noteq> System) xs = xs"
    and len: "length xs \<le> KEEP_RECENT_MESSAGES"
    and fixp: "trim_loop (pre @ xs) = pre @ xs"
  shows "trimConversation (pre @ xs) = pre @ xs"
proof -
  have nf: "find (\<lambda>msg. role msg = System) xs = None"
    using xs by (simp add: find_system_None)
  have f: "(case find (\<lambda>msg. role msg = System) (pre @ xs) of Some s \<Rightarrow> [s] | None \<Rightarrow> []) = pre"
    using pre nf by auto
  have g: "filter (\<lambda>msg. role msg \<noteq> System) (pre @ xs) = xs"
    using pre xs by auto
  show ?thesis
    unfolding trimConversation_def Let_def f g
    using len fixp by (simp add: slice_last_short)
qed

lemma filter_drop_id:
  "filter P xs = xs \<Longrightarrow> filter P (drop n xs) = drop n xs"
  by (metis filter_id_conv in_set_dropD)

lemma filter_take_id:
  "filter P xs = xs \<Longrightarrow> filter P (take n xs) = take n xs"
  by (metis filter_id_conv in_set_takeD)

lemma trimConversation_within:
  "length (filter (\<lambda>msg. role msg \<noteq> System) ms) \<le> MAX_MESSAGES \<Longrightarrow>
   calculateTotalTokens ms \<le> MAX_TOKENS \<Longrightarrow> trimConversation ms = ms"
  by (simp add: trimConversation_def)

lemma trimConversation_over:
  "\<not> (length (filter (\<lambda>msg. role msg \<noteq> System) ms) \<le> MAX_MESSAGES \<and>
      calculateTotalTokens ms \<le> MAX_TOKENS) \<Longrightarrow>
   trimConversation ms =
     trim_loop ((case find (\<lambda>msg. role msg = System) ms of Some s \<Rightarrow> [s] | None \<Rightarrow> []) @
                slice_last KEEP_RECENT_MESSAGES (filter (\<lambda>msg. role msg \<noteq> System) ms))"
  by (auto simp: trimConversation_def Let_def)

text \<open>Evaluation of the model on concrete turns.\<close>

lemmas eval_trim =
  trimConversation_def calculateTotalTokens_def estimateTokens_div limits_defs
  slice_last_def splice_1_1_def trim_loop.simps turn_def letters_def str_def

section \<open>Claims about the token estimate\<close>

text \<open>
  C8.  The estimated cost of a turn is the ceiling of a quarter of the length of its
  content, plus 10; in integer arithmetic that is \<open>(length + 3) div 4 + 10\<close>.  The
  total of a sequence, which the code accumulates with \<^verbatim>\<open>reduce\<close>, is the sum of
  the estimates of its turns.  Every estimate and every total is an integer that is
  not negative.
\<close>

theorem token_estimate_formula:
  "estimateTokens t = \<lceil>real (length (content t)) / 4\<rceil> + 10 \<and>
   estimateTokens t = int ((length (content t) + 3) div 4) + 10 \<and>
   calculateTotalTokens ts = (\<Sum>x\<leftarrow>ts. estimateTokens x) \<and>
   0 \<le> estimateTokens t \<and> 0 \<le> calculateTotalTokens ts"
proof -
  have nonneg: "0 \<le> estimateTokens x" for x
    by (simp add: estimateTokens_div)
  have total: "calculateTotalTokens ts = (\<Sum>x\<leftarrow>ts. estimateTokens x)"
    by (rule calculateTotalTokens_sum)
  have "0 \<le> (\<Sum>x\<leftarrow>ts. estimateTokens x)"
    by (rule sum_list_nonneg) (auto simp: nonneg)
  hence "0 \<le> calculateTotalTokens ts"
    by (simp only: total)
  moreover have "estimateTokens t = \<lceil>real (length (content t)) / 4\<rceil> + 10"
    by (simp add: estimateTokens_def)
  ultimately show ?thesis
    using nonneg [of t] estimateTokens_div [of t] total by blast
qed

text \<open>The estimate of a five-letter turn is 12; the two-turn dialogue totals 24.\<close>

theorem token_estimate_formula_witness:
  "estimateTokens (turn ''u'' User (str ''Hello'')) = 12 \<and>
   calculateTotalTokens short_dialogue = 24"
  using token_estimate_formula [of "turn ''u'' User (str ''Hello'')" short_dialogue]
  by (simp add: short_dialogue_def turn_def str_def estimateTokens_div)

section \<open>Claims about trimming\<close>

text \<open>
  C5.  A sequence with at most 30 turns that are not system turns, and whose
  estimates (the system turn included) sum to at most 4000, is returned by
  \<open>trimConversation\<close> as it is: the same turns in the same order.
\<close>

theorem trim_identity_within_limits:
  assumes "length (filter (\<lambda>t. role t \<noteq> System) ts) \<le> 30"
    and "(\<Sum>t\<leftarrow>ts. estimateTokens t) \<le> 4000"
  shows "trimConversation ts = ts"
  using assms
  by (intro trimConversation_within) (simp_all add: limits_defs calculateTotalTokens_sum)

text \<open>The two-turn dialogue meets both bounds and comes back unchanged.\<close>

theorem trim_identity_within_limits_witness:
  "length (filter (\<lambda>t. role t \<noteq> System) short_dialogue) \<le> 30 \<and>
   (\<Sum>t\<leftarrow>short_dialogue. estimateTokens t) \<le> 4000 \<and>
   trimConversation short_dialogue = short_dialogue"
proof -
  have a: "length (filter (\<lambda>t. role t \<noteq> System) short_dialogue) \<le> 30"
    by (simp add: short_dialogue_def turn_def)
  have b: "(\<Sum>t\<leftarrow>short_dialogue. estimateTokens t) \<le> 4000"
    by (simp add: short_dialogue_def turn_def str_def estimateTokens_div)
  show ?thesis using a b trim_identity_within_limits [OF a b] by simp
qed

text \<open>
  C10.  \<open>trimConversation\<close> is idempotent: trimming a trimmed sequence changes
  nothing.  This includes the floor case, where the loop stops at two turns whose
  estimates still exceed 4000.
\<close>

theorem trimConversation_idempotent:
  "trimConversation (trimConversation ms) = trimConversation ms"
proof (cases "length (filter (\<lambda>msg. role msg \<noteq> System) ms) \<le> MAX_MESSAGES \<and>
            calculateTotalTokens ms \<le> MAX_TOKENS")
  case True
  hence "trimConversation ms = ms" by (simp add: trimConversation_def)
  thus ?thesis by simp
next
  case False
  define pre where "pre = (case find (\<lambda>msg. role msg = System) ms of Some s \<Rightarrow> [s] | None \<Rightarrow> [])"
  define recent where "recent = slice_last KEEP_RECENT_MESSAGES (filter (\<lambda>msg. role msg \<noteq> System) ms)"
  have out: "trimConversation ms = trim_loop (pre @ recent)"
    using False by (auto simp: trimConversation_def pre_def recent_def Let_def)
  have pre: "pre = [] \<or> (\<exists>s. pre = [s] \<and> role s = System)"
    by (auto simp: pre_def split: option.splits dest: find_Some_iff[THEN iffD1])
  have rec_ns: "filter (\<lambda>msg. role msg \<noteq> System) recent = recent"
    by (simp add: recent_def slice_last_def filter_drop_id)
  have rec_len: "length recent \<le> KEEP_RECENT_MESSAGES"
    by (simp add: recent_def length_slice_last)
  obtain k where k: "trim_loop (pre @ recent) = take 1 (pre @ recent) @ drop (Suc k) (pre @ recent)"
    using trim_loop_shape by blast
  show ?thesis
  proof (cases "pre = []")
    case True
    let ?xs = "take 1 recent @ drop (Suc k) recent"
    have o: "trim_loop (pre @ recent) = [] @ ?xs" using k True by simp
    have "trimConversation ([] @ ?xs) = [] @ ?xs"
    proof (rule trim_fixpoint)
      show "filter (\<lambda>msg. role msg \<noteq> System) ?xs = ?xs"
        using rec_ns by (simp add: filter_drop_id filter_take_id)
      show "length ?xs \<le> KEEP_RECENT_MESSAGES" using rec_len by (cases recent) auto
      show "trim_loop ([] @ ?xs) = [] @ ?xs"
        using trim_loop_idem[of "pre @ recent"] o by simp
    qed simp
    thus ?thesis using out o by simp
  next
    case False
    then obtain s where s: "pre = [s]" "role s = System" using pre by auto
    let ?xs = "drop k recent"
    have o: "trim_loop (pre @ recent) = pre @ ?xs" using k s by simp
    have "trimConversation (pre @ ?xs) = pre @ ?xs"
    proof (rule trim_fixpoint)
      show "pre = [] \<or> (\<exists>s. pre = [s] \<and> role s = System)" by (rule pre)
      show "filter (\<lambda>msg. role msg \<noteq> System) ?xs = ?xs"
        using rec_ns by (simp add: filter_drop_id)
      show "length ?xs \<le> KEEP_RECENT_MESSAGES" using rec_len by simp
      show "trim_loop (pre @ ?xs) = pre @ ?xs"
        using trim_loop_idem[of "pre @ recent"] o by simp
    qed
    thus ?thesis using out o by simp
  qed
qed

lemma one_huge_turn_trimmed: "trimConversation one_huge_turn = one_huge_turn"
  by (simp add: one_huge_turn_def eval_trim)

lemma one_huge_turn_over: "calculateTotalTokens one_huge_turn = 5023"
  by (simp add: one_huge_turn_def eval_trim)

text \<open>
  The floor case: a system turn and one turn of 20000 letters.  The output has two
  turns, totals more than 4000, and is trimmed to itself.
\<close>

theorem trimConversation_idempotent_witness:
  "length (trimConversation one_huge_turn) = 2 \<and>
   calculateTotalTokens (trimConversation one_huge_turn) > 4000 \<and>
   trimConversation (trimConversation one_huge_turn) = trimConversation one_huge_turn"
  using trimConversation_idempotent [of one_huge_turn]
  by (simp add: one_huge_turn_trimmed one_huge_turn_over) (simp add: one_huge_turn_def)

lemma find_system_Some:
  "find (\<lambda>msg. role msg = System) ms = Some s \<Longrightarrow> s \<in> set ms \<and> role s = System"
  by (auto simp: find_Some_iff)

lemma find_system_exists:
  "s \<in> set ms \<Longrightarrow> role s = System \<Longrightarrow> \<exists>s'. find (\<lambda>msg. role msg = System) ms = Some s'"
  by (cases "find (\<lambda>msg. role msg = System) ms") (auto simp: find_None_iff)

lemma trim_over_pinned:
  assumes over: "\<not> (length (filter (\<lambda>msg. role msg \<noteq> System) ms) \<le> MAX_MESSAGES \<and>
      calculateTotalTokens ms \<le> MAX_TOKENS)"
    and s: "find (\<lambda>msg. role msg = System) ms = Some s"
  shows "\<exists>k. trimConversation ms =
           s # drop k (slice_last KEEP_RECENT_MESSAGES (filter (\<lambda>msg. role msg \<noteq> System) ms))"
proof -
  let ?recent = "slice_last KEEP_RECENT_MESSAGES (filter (\<lambda>msg. role msg \<noteq> System) ms)"
  have "trimConversation ms = trim_loop ([s] @ ?recent)"
    using trimConversation_over [OF over] s by simp
  moreover obtain k where "trim_loop ([s] @ ?recent) = take 1 ([s] @ ?recent) @ drop (Suc k) ([s] @ ?recent)"
    using trim_loop_shape by blast
  ultimately have "trimConversation ms = s # drop k ?recent" by simp
  thus ?thesis by blast
qed

lemma filter_system_recent:
  "filter (\<lambda>msg. role msg = System)
     (drop k (slice_last n (filter (\<lambda>msg. role msg \<noteq> System) ms))) = []"
  by (auto simp: filter_empty_conv slice_last_def dest!: in_set_dropD)

text \<open>
  C4, as the code has it.  Let \<open>s\<close> be the first system turn of the input.  The
  output always contains \<open>s\<close>.  When the input is within both limits the output is
  the input, so \<open>s\<close> stands where it stood and other system turns stay.  When a
  limit is exceeded, \<open>s\<close> is the first element of the output and the only system
  turn in it.
\<close>

theorem system_turn_pinned:
  assumes "find (\<lambda>t. role t = System) ts = Some s"
  shows "s \<in> set (trimConversation ts) \<and>
         (if length (filter (\<lambda>t. role t \<noteq> System) ts) \<le> 30 \<and>
             (\<Sum>t\<leftarrow>ts. estimateTokens t) \<le> 4000
          then trimConversation ts = ts
          else hd (trimConversation ts) = s \<and>
               filter (\<lambda>t. role t = System) (trimConversation ts) = [s])"
proof (cases "length (filter (\<lambda>msg. role msg \<noteq> System) ts) \<le> MAX_MESSAGES \<and>
              calculateTotalTokens ts \<le> MAX_TOKENS")
  case True
  hence "trimConversation ts = ts" by (simp add: trimConversation_within)
  thus ?thesis
    using True find_system_Some [OF assms]
    by (simp add: limits_defs calculateTotalTokens_sum)
next
  case False
  obtain k where k: "trimConversation ts =
      s # drop k (slice_last KEEP_RECENT_MESSAGES (filter (\<lambda>msg. role msg \<noteq> System) ts))"
    using trim_over_pinned [OF False assms] by blast
  have over: "\<not> (length (filter (\<lambda>t. role t \<noteq> System) ts) \<le> 30 \<and>
                 (\<Sum>t\<leftarrow>ts. estimateTokens t) \<le> 4000)"
    using False by (simp add: limits_defs calculateTotalTokens_sum)
  have "role s = System" using find_system_Some [OF assms] by simp
  hence "filter (\<lambda>t. role t = System) (trimConversation ts) = [s]"
    by (simp add: k filter_system_recent)
  moreover have "hd (trimConversation ts) = s" "s \<in> set (trimConversation ts)"
    by (simp_all add: k)
  ultimately show ?thesis
    unfolding if_not_P [OF over] by blast
qed

text \<open>
  A dialogue over the token limit whose system turn is second: the output starts
  with that turn and has no other system turn.
\<close>

lemma heavy_dialogue_trimmed:
  "trimConversation heavy_dialogue =
     [turn ''s'' System (str ''Be brief.''), turn ''a1'' Assistant (letters 8000),
      turn ''u2'' User (str ''Hi'')]"
  by (simp add: heavy_dialogue_def eval_trim)

theorem system_turn_pinned_witness:
  "find (\<lambda>t. role t = System) heavy_dialogue = Some (turn ''s'' System (str ''Be brief.'')) \<and>
   \<not> (\<Sum>t\<leftarrow>heavy_dialogue. estimateTokens t) \<le> 4000 \<and>
   hd (trimConversation heavy_dialogue) = turn ''s'' System (str ''Be brief.'') \<and>
   filter (\<lambda>t. role t = System) (trimConversation heavy_dialogue) =
     [turn ''s'' System (str ''Be brief.'')]"
proof -
  have f: "find (\<lambda>t. role t = System) heavy_dialogue = Some (turn ''s'' System (str ''Be brief.''))"
    by (simp add: heavy_dialogue_def turn_def)
  have o: "\<not> (\<Sum>t\<leftarrow>heavy_dialogue. estimateTokens t) \<le> 4000"
    by (simp add: heavy_dialogue_def turn_def letters_def str_def estimateTokens_div)
  show ?thesis
    using f o system_turn_pinned [OF f] by simp
qed

text \<open>
  C4 as stated fails on a short dialogue of a user turn followed by two system
  turns: it is returned unchanged, so the first element is the user turn and both
  system turns are in the output.
\<close>

theorem system_turn_first_counterexample:
  "trimConversation late_system_dialogue = late_system_dialogue \<and>
   map role (trimConversation late_system_dialogue) = [User, System, System]"
  by (simp add: late_system_dialogue_def eval_trim)

text \<open>
  C6, as the code has it.  An input with a system turn and at least one turn that is
  not a system turn gives an output of at least two turns, whatever the estimates
  are.
\<close>

theorem floor_of_two_turns:
  assumes "s \<in> set ts" and "role s = System" and "t \<in> set ts" and "role t \<noteq> System"
  shows "2 \<le> length (trimConversation ts)"
proof (cases "length (filter (\<lambda>msg. role msg \<noteq> System) ts) \<le> MAX_MESSAGES \<and>
              calculateTotalTokens ts \<le> MAX_TOKENS")
  case True
  have "s \<noteq> t" using assms by auto
  hence "card {s, t} = 2" by simp
  moreover have "card {s, t} \<le> card (set ts)"
    using assms by (intro card_mono) auto
  ultimately have "2 \<le> length ts"
    using card_length [of ts] by linarith
  thus ?thesis using True by (simp add: trimConversation_within)
next
  case False
  obtain s' where s': "find (\<lambda>msg. role msg = System) ts = Some s'"
    using find_system_exists assms by blast
  let ?ns = "filter (\<lambda>msg. role msg \<noteq> System) ts"
  have "t \<in> set ?ns" using assms by simp
  hence "1 \<le> length ?ns" by (cases ?ns) auto
  hence "1 \<le> length (slice_last KEEP_RECENT_MESSAGES ?ns)"
    by (simp add: length_slice_last limits_defs)
  hence "min 2 (length ([s'] @ slice_last KEEP_RECENT_MESSAGES ?ns)) = 2" by simp
  moreover have "trimConversation ts = trim_loop ([s'] @ slice_last KEEP_RECENT_MESSAGES ?ns)"
    using trimConversation_over [OF False] s' by simp
  ultimately show ?thesis
    using trim_loop_length_ge [of "[s'] @ slice_last KEEP_RECENT_MESSAGES ?ns"] by simp
qed

text \<open>
  A system turn and one turn of 20000 letters: the total exceeds 4000 and both
  turns are kept.
\<close>

theorem floor_of_two_turns_witness:
  "turn ''s'' System (str ''Be brief.'') \<in> set one_huge_turn \<and>
   turn ''u'' User (letters 20000) \<in> set one_huge_turn \<and>
   4000 < calculateTotalTokens one_huge_turn \<and>
   2 \<le> length (trimConversation one_huge_turn)"
proof -
  have a: "turn ''s'' System (str ''Be brief.'') \<in> set one_huge_turn"
    and b: "turn ''u'' User (letters 20000) \<in> set one_huge_turn"
    by (simp_all add: one_huge_turn_def)
  have c: "role (turn ''s'' System (str ''Be brief.'')) = System"
    and d: "role (turn ''u'' User (letters 20000)) \<noteq> System"
    by (simp_all add: turn_def)
  show ?thesis
    using a b floor_of_two_turns [OF a c b d] by (simp add: one_huge_turn_over)
qed

text \<open>
  C6 as stated fails when the other turn is a system turn too: of two system turns
  of 8000 letters each, only the first is returned.
\<close>

theorem floor_of_two_turns_counterexample:
  "length two_heavy_systems = 2 \<and> map role two_heavy_systems = [System, System] \<and>
   trimConversation two_heavy_systems = [turn ''s1'' System (letters 8000)] \<and>
   length (trimConversation two_heavy_systems) = 1"
  by (simp add: two_heavy_systems_def eval_trim)

lemma sum_list_const:
  "\<forall>x\<in>set xs. f x = (c::int) \<Longrightarrow> sum_list (map f xs) = c * int (length xs)"
  by (induction xs) (simp_all add: algebra_simps)

lemma filter_id_all: "(\<forall>x\<in>set xs. P x) \<Longrightarrow> filter P xs = xs"
  by (simp add: filter_id_conv)

text \<open>
  C7.  For 40 user and assistant turns estimated at 50 tokens each, the last 10
  turns of the output that are not system turns are the last 10 such turns of the
  input, in the same order.
\<close>

theorem recent_turns_kept:
  assumes "length ts = 40"
    and "\<forall>t\<in>set ts. role t \<in> {User, Assistant} \<and> estimateTokens t = 50"
  shows "slice_last 10 (filter (\<lambda>t. role t \<noteq> System) (trimConversation ts)) =
         slice_last 10 (filter (\<lambda>t. role t \<noteq> System) ts)"
proof -
  have ns: "filter (\<lambda>msg. role msg \<noteq> System) ts = ts"
    using assms(2) by (intro filter_id_all) auto
  hence none: "find (\<lambda>msg. role msg = System) ts = None"
    by (simp add: find_system_None)
  have over: "\<not> (length (filter (\<lambda>msg. role msg \<noteq> System) ts) \<le> MAX_MESSAGES \<and>
      calculateTotalTokens ts \<le> MAX_TOKENS)"
    using assms(1) by (simp add: ns limits_defs)
  have "\<forall>t\<in>set (drop 30 ts). estimateTokens t = 50"
    using assms(2) by (auto dest: in_set_dropD)
  hence "calculateTotalTokens (drop 30 ts) = 50 * int (length (drop 30 ts))"
    unfolding calculateTotalTokens_sum by (rule sum_list_const)
  hence "calculateTotalTokens (drop 30 ts) = 500"
    using assms(1) by simp
  hence "trim_loop (drop 30 ts) = drop 30 ts"
    by (intro trim_loop_fix) (simp add: limits_defs)
  hence out: "trimConversation ts = drop 30 ts"
    using trimConversation_over [OF over] assms(1)
    by (simp add: ns none slice_last_def limits_defs)
  have "filter (\<lambda>t. role t \<noteq> System) (drop 30 ts) = drop 30 ts"
    using ns by (rule filter_drop_id)
  thus ?thesis
    using assms(1) by (simp add: out ns slice_last_def)
qed

text \<open>Forty alternating turns of 160 letters, 50 tokens each.\<close>

theorem recent_turns_kept_witness:
  "length forty_turns = 40 \<and>
   list_all (\<lambda>t. role t \<in> {User, Assistant} \<and> estimateTokens t = 50) forty_turns \<and>
   slice_last 10 (filter (\<lambda>t. role t \<noteq> System) (trimConversation forty_turns)) =
   slice_last 10 (filter (\<lambda>t. role t \<noteq> System) forty_turns)"
proof -
  have a: "length forty_turns = 40"
    by (simp add: forty_turns_def)
  have b: "\<forall>t\<in>set forty_turns. role t \<in> {User, Assistant} \<and> estimateTokens t = 50"
    by (simp add: forty_turns_def letters_def estimateTokens_div)
  show ?thesis
    using a b recent_turns_kept [OF a b] by (simp add: list_all_iff)
qed

section \<open>Claims about validation\<close>

lemma trim_Nil: "trim [] = []"
  by (simp add: trim_def)

lemma validateMessage_too_long_iff:
  assumes "s \<noteq> []" and "trim s \<noteq> []"
  shows "validateMessage (JSString s) =
           \<lparr>valid = False,
            error = Some (str ''Message is too long (maximum 10,000 characters)'')\<rparr>
         \<longleftrightarrow> 10000 < length s"
proof (cases "10000 < length s")
  case True
  thus ?thesis using assms by (simp add: validateMessage_def)
next
  case False
  have "str ''Message contains potentially unsafe content'' \<noteq>
        str ''Message is too long (maximum 10,000 characters)''"
    by (simp add: str_def)
  thus ?thesis using False assms by (simp add: validateMessage_def)
qed

text \<open>
  C3, as the code has it.  For a string whose trimmed form is not empty,
  \<open>validateMessage\<close> answers with the error "too long" exactly when the length of
  the string as received, surrounding white space included, exceeds 10000.
\<close>

theorem too_long_by_untrimmed_length:
  assumes "trim s \<noteq> []"
  shows "validateMessage (JSString s) =
           \<lparr>valid = False,
            error = Some (str ''Message is too long (maximum 10,000 characters)'')\<rparr>
         \<longleftrightarrow> 10000 < length s"
proof -
  have "s \<noteq> []" using assms trim_Nil by auto
  thus ?thesis using assms by (rule validateMessage_too_long_iff)
qed

lemma trim_letters: "trim (letters n) = letters n"
  by (simp add: trim_def letters_def isWhiteSpace_def)

text \<open>The letter \<^verbatim>\<open>a\<close> repeated 10001 times is rejected as too long.\<close>

theorem too_long_by_untrimmed_length_witness:
  "trim (letters 10001) \<noteq> [] \<and> 10000 < length (letters 10001) \<and>
   validateMessage (JSString (letters 10001)) =
     \<lparr>valid = False,
      error = Some (str ''Message is too long (maximum 10,000 characters)'')\<rparr>"
proof -
  have a: "trim (letters 10001) \<noteq> []"
    by (simp add: trim_letters) (simp add: letters_def)
  have b: "10000 < length (letters 10001)"
    by (simp add: letters_def)
  show ?thesis
    using a b too_long_by_untrimmed_length [OF a] by simp
qed

lemma dropWhile_replicate_append:
  "P x \<Longrightarrow> dropWhile P (replicate n x @ ys) = dropWhile P ys"
  by (induction n) simp_all

lemma isWhiteSpace_space: "isWhiteSpace 0x20"
  by (simp add: isWhiteSpace_def)

lemma isWhiteSpace_letter: "\<not> isWhiteSpace 0x61"
  by (simp add: isWhiteSpace_def)

lemma trim_padded_letter: "trim padded_letter = letters 1"
  by (simp add: trim_def padded_letter_def letters_def dropWhile_replicate_append
      isWhiteSpace_space isWhiteSpace_letter)

text \<open>
  C3 as stated fails on one letter followed by 10000 spaces: the trimmed form has
  length 1 and the message is rejected as too long.
\<close>

theorem too_long_counterexample:
  "trim padded_letter = letters 1 \<and> length (trim padded_letter) = 1 \<and>
   validateMessage (JSString padded_letter) =
     \<lparr>valid = False,
      error = Some (str ''Message is too long (maximum 10,000 characters)'')\<rparr>"
  by (simp add: trim_padded_letter validateMessage_def)
     (simp add: padded_letter_def letters_def)

section \<open>Claims about eviction\<close>

lemma shouldCleanup_ms:
  "shouldCleanupConversation now seen \<longleftrightarrow> 24 * 60 * 60 * 1000 < now - seen"
proof -
  have "real_of_int (now - seen) / (1000 * 60 * 60) > 24 \<longleftrightarrow>
        real_of_int (now - seen) > 24 * (1000 * 60 * 60)"
    by (simp add: field_simps)
  also have "\<dots> \<longleftrightarrow> 24 * 60 * 60 * 1000 < now - seen"
    by linarith
  finally show ?thesis by (simp add: shouldCleanupConversation_def)
qed

lemma fold_delete_filter:
  "fold (\<lambda>(k, c) cs. if E c then AList.delete k cs else cs) xs acc =
   filter (\<lambda>p. \<not> (\<exists>q\<in>set xs. fst q = fst p \<and> E (snd q))) acc"
proof (induction xs arbitrary: acc)
  case Nil
  show ?case by simp
next
  case (Cons x xs)
  show ?case
    by (cases x) (auto simp: Cons.IH AList.delete_eq intro!: filter_cong)
qed

lemma cleanup_sweep_filter:
  assumes "distinct (map fst cs)"
  shows "cleanup_sweep now cs =
         filter (\<lambda>(cid, c). \<not> shouldCleanupConversation now (lastActivity c)) cs"
proof -
  have "(\<exists>q\<in>set cs. fst q = fst p \<and> shouldCleanupConversation now (lastActivity (snd q))) \<longleftrightarrow>
        shouldCleanupConversation now (lastActivity (snd p))" if "p \<in> set cs" for p
  proof
    assume "\<exists>q\<in>set cs. fst q = fst p \<and> shouldCleanupConversation now (lastActivity (snd q))"
    then obtain q where q: "q \<in> set cs" "fst q = fst p"
      "shouldCleanupConversation now (lastActivity (snd q))" by blast
    have "snd q = snd p"
      using assms q(1,2) that eq_key_imp_eq_value [of cs "fst p" "snd q" "snd p"]
      by (metis prod.collapse)
    thus "shouldCleanupConversation now (lastActivity (snd p))" using q(3) by simp
  next
    assume "shouldCleanupConversation now (lastActivity (snd p))"
    thus "\<exists>q\<in>set cs. fst q = fst p \<and> shouldCleanupConversation now (lastActivity (snd q))"
      using that by blast
  qed
  thus ?thesis
    unfolding cleanup_sweep_def fold_delete_filter
    by (intro filter_cong) (auto simp: case_prod_beta)
qed

text \<open>
  C9.  The predicate holds exactly when more than 24 hours (in milliseconds) lie
  between the last activity and the clock reading.  On a map, whose keys are
  distinct, one sweep keeps the sessions for which the predicate fails, in their
  order, and deletes the others.  A session idle for 25 hours is evicted, one idle
  for 1 hour is not.
\<close>

theorem eviction_after_24_hours:
  assumes "distinct (map fst conversations)"
  shows "(shouldCleanupConversation now seen \<longleftrightarrow> 24 * 60 * 60 * 1000 < now - seen) \<and>
         cleanup_sweep now conversations =
           filter (\<lambda>(cid, c). \<not> shouldCleanupConversation now (lastActivity c)) conversations \<and>
         shouldCleanupConversation (seen + 25 * 60 * 60 * 1000) seen \<and>
         \<not> shouldCleanupConversation (seen + 1 * 60 * 60 * 1000) seen"
  using cleanup_sweep_filter [OF assms] by (simp add: shouldCleanup_ms)

text \<open>Of the two sessions, the sweep deletes the one idle for 25 hours.\<close>

theorem eviction_after_24_hours_witness:
  "distinct (map fst two_sessions) \<and>
   cleanup_sweep sweep_time two_sessions =
     [(str ''busy'', \<lparr>messages = short_dialogue, lastActivity = sweep_time - 1 * 3600000\<rparr>)]"
proof -
  have d: "distinct (map fst two_sessions)"
    by (simp add: two_sessions_def str_def)
  show ?thesis
    using d eviction_after_24_hours [OF d, of sweep_time 0]
    by (simp add: two_sessions_def shouldCleanup_ms)
qed

section \<open>Claims about the request handler\<close>

lemma trim_loop_last: "t \<noteq> [] \<Longrightarrow> last (trim_loop t) = last t"
proof (induction t rule: trim_loop.induct)
  case (1 t)
  show ?case
  proof (cases "length t > 2 \<and> calculateTotalTokens t > MAX_TOKENS")
    case True
    then obtain x y z r where t: "t = x # y # z # r"
      by (cases t; cases "tl t"; cases "tl (tl t)") auto
    have "trim_loop t = trim_loop (splice_1_1 t)"
      using True by (subst trim_loop.simps) simp
    moreover have "last (trim_loop (splice_1_1 t)) = last (splice_1_1 t)"
      using 1 True by (simp add: t splice_1_1_def)
    ultimately show ?thesis by (simp add: t splice_1_1_def)
  next
    case False
    thus ?thesis by (simp add: trim_loop_fix)
  qed
qed

lemma trimConversation_last:
  assumes "role u \<noteq> System"
  shows "last (trimConversation (xs @ [u])) = u"
proof (cases "length (filter (\<lambda>msg. role msg \<noteq> System) (xs @ [u])) \<le> MAX_MESSAGES \<and>
              calculateTotalTokens (xs @ [u]) \<le> MAX_TOKENS")
  case True
  thus ?thesis by (simp add: trimConversation_within)
next
  case False
  let ?pre = "case find (\<lambda>msg. role msg = System) (xs @ [u]) of Some s \<Rightarrow> [s] | None \<Rightarrow> []"
  let ?ns = "filter (\<lambda>msg. role msg \<noteq> System) xs"
  have "slice_last KEEP_RECENT_MESSAGES (?ns @ [u]) =
        drop (length ?ns + 1 - KEEP_RECENT_MESSAGES) ?ns @ [u]"
    by (simp add: slice_last_def limits_defs)
  hence "trimConversation (xs @ [u]) =
         trim_loop ((?pre @ drop (length ?ns + 1 - KEEP_RECENT_MESSAGES) ?ns) @ [u])"
    using trimConversation_over [OF False] assms by simp
  thus ?thesis by (simp add: trim_loop_last)
qed

lemma chat_post_replied:
  assumes msg: "req_message req = JSString message"
    and ok: "valid (validateMessage (JSString message))"
    and cid: "cid = currentConversationId env req"
    and payload: "payload = trimConversation
        (messages (conversationData env conversations cid) @ [userMessage env cid message])"
    and reply: "if req_stream req
                then chatCompletionStream env payload = StreamEnded chunks \<and> reply = concat chunks
                else chatCompletion env payload = Returned reply"
  shows "map_of (store (chat_post env req conversations)) cid =
           Some \<lparr>messages = payload @ [assistantMessage env cid reply],
                 lastActivity = date_done env\<rparr>"
    and "sent (chat_post env req conversations) = Some payload"
proof -
  show "map_of (store (chat_post env req conversations)) cid =
           Some \<lparr>messages = payload @ [assistantMessage env cid reply],
                 lastActivity = date_done env\<rparr>"
  proof (cases "req_stream req")
    case True
    thus ?thesis
      using msg ok reply cid [symmetric] payload [symmetric]
      by (simp add: chat_post_def Let_def update_conv')
  next
    case False
    thus ?thesis
      using msg ok reply cid [symmetric] payload [symmetric]
      by (simp add: chat_post_def Let_def update_conv')
  qed
  show "sent (chat_post env req conversations) = Some payload"
  proof (cases "req_stream req")
    case True
    thus ?thesis
      using msg ok reply cid [symmetric] payload [symmetric]
      by (simp add: chat_post_def Let_def)
  next
    case False
    thus ?thesis
      using msg ok reply cid [symmetric] payload [symmetric]
      by (simp add: chat_post_def Let_def)
  qed
qed

lemma chat_post_failed:
  assumes msg: "req_message req = JSString message"
    and ok: "valid (validateMessage (JSString message))"
    and cid: "cid = currentConversationId env req"
    and payload: "payload = trimConversation
        (messages (conversationData env conversations cid) @ [userMessage env cid message])"
    and failure: "if req_stream req then chatCompletionStream env payload = StreamThrew chunks
                  else chatCompletion env payload = Threw"
  shows "map_of (store (chat_post env req conversations)) cid =
           Some \<lparr>messages = payload, lastActivity = date_trimmed env\<rparr>"
    and "response (chat_post env req conversations) =
           (if req_stream req
            then EventStream (map (\<lambda>chunk. ChunkEvent chunk (uuid_assistant env) cid) chunks @
                              [ErrorEvent (str ''Failed to generate response'')])
            else NextError (str ''Failed to generate response from AI'') None)"
proof -
  show "map_of (store (chat_post env req conversations)) cid =
           Some \<lparr>messages = payload, lastActivity = date_trimmed env\<rparr>"
  proof (cases "req_stream req")
    case True
    thus ?thesis
      using msg ok failure cid [symmetric] payload [symmetric]
      by (simp add: chat_post_def Let_def update_conv')
  next
    case False
    thus ?thesis
      using msg ok failure cid [symmetric] payload [symmetric]
      by (simp add: chat_post_def Let_def update_conv')
  qed
  show "response (chat_post env req conversations) =
           (if req_stream req
            then EventStream (map (\<lambda>chunk. ChunkEvent chunk (uuid_assistant env) cid) chunks @
                              [ErrorEvent (str ''Failed to generate response'')])
            else NextError (str ''Failed to generate response from AI'') None)"
  proof (cases "req_stream req")
    case True
    thus ?thesis
      using msg ok failure cid [symmetric] payload [symmetric]
      by (simp add: chat_post_def Let_def)
  next
    case False
    thus ?thesis
      using msg ok failure cid [symmetric] payload [symmetric]
      by (simp add: chat_post_def Let_def)
  qed
qed


text \<open>Evaluation of the handler on the concrete requests.\<close>

lemma valid_hi: "valid (validateMessage (JSString (str '' Hi '')))"
  by (simp add: validateMessage_def match_javascript_def match_script_def
      match_on_handler_def match_eval_def maliciousPatterns_def isWordChar_def
      isWhiteSpace_def canonicalize_def trim_def str_def)

lemma trim_hi: "trim (str '' Hi '') = str ''Hi''"
  by (simp add: trim_def isWhiteSpace_def str_def)

lemma cid_hi: "currentConversationId env (request_hi streaming) = str ''c1''"
  by (simp add: currentConversationId_def request_hi_def str_def)

lemma new_session_payload:
  "trimConversation (messages (conversationData env [] (str ''c1'')) @
                     [userMessage env (str ''c1'') (str '' Hi '')]) =
   [addSystemMessage env, userMessage env (str ''c1'') (str '' Hi '')]"
  by (simp add: conversationData_def userMessage_def addSystemMessage_def trim_hi
      trimConversation_def calculateTotalTokens_def estimateTokens_div limits_defs)
     (simp add: str_def)

lemma grown_session_payload:
  "trimConversation (messages (conversationData env grown_store (str ''c1'')) @
                     [userMessage env (str ''c1'') (str '' Hi '')]) =
   [turn ''s'' System (str ''Be brief.''), turn ''a1'' Assistant (letters 8000),
    userMessage env (str ''c1'') (str '' Hi '')]"
proof -
  have "map_of grown_store (str ''c1'') = Some \<lparr>messages = first_turns, lastActivity = 60\<rparr>"
    by (simp add: grown_store_def)
  hence "messages (conversationData env grown_store (str ''c1'')) = first_turns"
    by (simp add: conversationData_def)
  hence "trimConversation (messages (conversationData env grown_store (str ''c1'')) @
                          [userMessage env (str ''c1'') (str '' Hi '')]) =
         trimConversation
           [turn ''s'' System (str ''Be brief.''), turn ''u1'' User (letters 8000),
            turn ''a1'' Assistant (letters 8000),
            \<lparr>msg_id = uuid_user env, role = User, content = str ''Hi'',
             timestamp = date_user env, conversationId = Some (str ''c1'')\<rparr>]"
    by (simp add: first_turns_def userMessage_def trim_hi)
  also have "\<dots> =
           [turn ''s'' System (str ''Be brief.''), turn ''a1'' Assistant (letters 8000),
            \<lparr>msg_id = uuid_user env, role = User, content = str ''Hi'',
             timestamp = date_user env, conversationId = Some (str ''c1'')\<rparr>]"
    by (simp add: eval_trim)
  finally show ?thesis
    by (simp add: userMessage_def trim_hi)
qed

text \<open>
  C1, as the code has it.  For a request with a valid message that the provider
  answers, in either mode: the history stored for the session afterwards is
  \<open>trimConversation\<close> of the history before the request with the user turn
  appended, followed by the assistant turn, and the provider was called with that
  same trimmed sequence.  The trimmed sequence replaces the stored history; it is
  the earlier history plus the user turn when that is within both limits.
\<close>

theorem stored_history_is_trimmed:
  assumes "req_message req = JSString message"
    and "valid (validateMessage (JSString message))"
    and "cid = currentConversationId env req"
    and "before = messages (conversationData env conversations cid)"
    and "payload = trimConversation (before @ [userMessage env cid message])"
    and "if req_stream req
         then chatCompletionStream env payload = StreamEnded chunks \<and> reply = concat chunks
         else chatCompletion env payload = Returned reply"
  shows "map_of (store (chat_post env req conversations)) cid =
           Some \<lparr>messages = payload @ [assistantMessage env cid reply],
                 lastActivity = date_done env\<rparr> \<and>
         sent (chat_post env req conversations) = Some payload \<and>
         (length (filter (\<lambda>t. role t \<noteq> System) (before @ [userMessage env cid message])) \<le> 30 \<and>
          (\<Sum>t\<leftarrow>before @ [userMessage env cid message]. estimateTokens t) \<le> 4000 \<longrightarrow>
          payload = before @ [userMessage env cid message])"
proof -
  have p: "payload = trimConversation
      (messages (conversationData env conversations cid) @ [userMessage env cid message])"
    using assms(4,5) by simp
  have "length (filter (\<lambda>t. role t \<noteq> System) (before @ [userMessage env cid message])) \<le> 30 \<and>
        (\<Sum>t\<leftarrow>before @ [userMessage env cid message]. estimateTokens t) \<le> 4000 \<longrightarrow>
        payload = before @ [userMessage env cid message]"
    unfolding assms(5)
    by (intro impI trimConversation_within)
       (simp_all add: limits_defs calculateTotalTokens_sum)
  thus ?thesis
    using chat_post_replied [OF assms(1,2,3) p assms(6)] by blast
qed

text \<open>
  Two streamed requests with the message \<^verbatim>\<open>" Hi "\<close>.  For the new conversation
  \<^verbatim>\<open>c1\<close> the input is within both limits: the session holds the system turn, the
  user turn and the assistant turn, and the provider received the first two.  On the
  session of two long turns the input is over the token limit: the session holds the
  trimmed sequence followed by the assistant turn.
\<close>

theorem stored_history_is_trimmed_witness:
  "valid (validateMessage (JSString (str '' Hi ''))) \<and>
   map_of (store (chat_post env_ok (request_hi True) [])) (str ''c1'') =
     Some \<lparr>messages = [addSystemMessage env_ok, userMessage env_ok (str ''c1'') (str '' Hi ''),
                       assistantMessage env_ok (str ''c1'') (str ''ok'')],
           lastActivity = 201\<rparr> \<and>
   sent (chat_post env_ok (request_hi True) []) =
     Some [addSystemMessage env_ok, userMessage env_ok (str ''c1'') (str '' Hi '')] \<and>
   (\<Sum>t\<leftarrow>[addSystemMessage env_ok, userMessage env_ok (str ''c1'') (str '' Hi '')].
      estimateTokens t) = 55 \<and>
   map_of (store (chat_post env_ok (request_hi True) grown_store)) (str ''c1'') =
     Some \<lparr>messages = [turn ''s'' System (str ''Be brief.''), turn ''a1'' Assistant (letters 8000),
                       userMessage env_ok (str ''c1'') (str '' Hi ''),
                       assistantMessage env_ok (str ''c1'') (str ''ok'')],
           lastActivity = 201\<rparr> \<and>
   sent (chat_post env_ok (request_hi True) grown_store) =
     Some [turn ''s'' System (str ''Be brief.''), turn ''a1'' Assistant (letters 8000),
           userMessage env_ok (str ''c1'') (str '' Hi '')]"
proof -
  let ?trimmed = "[turn ''s'' System (str ''Be brief.''), turn ''a1'' Assistant (letters 8000),
                   userMessage env_ok (str ''c1'') (str '' Hi '')]"
  have p': "?trimmed = trimConversation
             (messages (conversationData env_ok grown_store (str ''c1'')) @
              [userMessage env_ok (str ''c1'') (str '' Hi '')])"
    by (simp add: grown_session_payload)
  have r': "if req_stream (request_hi True)
            then chatCompletionStream env_ok ?trimmed = StreamEnded [str ''o'', str ''k''] \<and>
                 str ''ok'' = concat [str ''o'', str ''k'']
            else chatCompletion env_ok ?trimmed = Returned (str ''ok'')"
    by (simp add: request_hi_def env_ok_def str_def)
  let ?payload = "[addSystemMessage env_ok, userMessage env_ok (str ''c1'') (str '' Hi '')]"
  have a: "req_message (request_hi True) = JSString (str '' Hi '')"
    by (simp add: request_hi_def)
  have c: "str ''c1'' = currentConversationId env_ok (request_hi True)"
    by (simp add: cid_hi)
  have p: "?payload = trimConversation (messages (conversationData env_ok [] (str ''c1'')) @
             [userMessage env_ok (str ''c1'') (str '' Hi '')])"
    by (simp add: new_session_payload)
  have r: "if req_stream (request_hi True)
           then chatCompletionStream env_ok ?payload = StreamEnded [str ''o'', str ''k''] \<and>
                str ''ok'' = concat [str ''o'', str ''k'']
           else chatCompletion env_ok ?payload = Returned (str ''ok'')"
    by (simp add: request_hi_def env_ok_def str_def)
  have t: "(\<Sum>t\<leftarrow>?payload. estimateTokens t) = 55"
    by (simp add: addSystemMessage_def userMessage_def trim_hi estimateTokens_div)
       (simp add: str_def)
  show ?thesis
    using valid_hi t stored_history_is_trimmed [OF a valid_hi c refl p r]
      stored_history_is_trimmed [OF a valid_hi c refl p' r']
    by (simp add: env_ok_def)
qed

text \<open>
  C1 as stated fails on a session that holds a system turn, a user turn and an
  assistant turn of 8000 letters each.  With the new user turn the estimate is 4044,
  the loop removes the turn \<^verbatim>\<open>u1\<close>, and the session stores the trimmed sequence:
  \<^verbatim>\<open>u1\<close> is gone from the stored history.
\<close>

theorem stored_history_counterexample:
  "map_of grown_store (str ''c1'') = Some \<lparr>messages = first_turns, lastActivity = 60\<rparr> \<and>
   map msg_id first_turns = [str ''s'', str ''u1'', str ''a1''] \<and>
   map_of (store (chat_post env_ok (request_hi False) grown_store)) (str ''c1'') =
     Some \<lparr>messages = [turn ''s'' System (str ''Be brief.''), turn ''a1'' Assistant (letters 8000),
                       userMessage env_ok (str ''c1'') (str '' Hi ''),
                       assistantMessage env_ok (str ''c1'') (str ''ok'')],
           lastActivity = 201\<rparr> \<and>
   map msg_id [turn ''s'' System (str ''Be brief.''), turn ''a1'' Assistant (letters 8000),
               userMessage env_ok (str ''c1'') (str '' Hi ''),
               assistantMessage env_ok (str ''c1'') (str ''ok'')] =
     [str ''s'', str ''a1'', str ''u2'', str ''a2'']"
proof -
  have "map_of (store (chat_post env_ok (request_hi False) grown_store)) (str ''c1'') =
     Some \<lparr>messages = [turn ''s'' System (str ''Be brief.''), turn ''a1'' Assistant (letters 8000),
                       userMessage env_ok (str ''c1'') (str '' Hi '')] @
                      [assistantMessage env_ok (str ''c1'') (str ''ok'')],
           lastActivity = date_done env_ok\<rparr>"
    by (rule chat_post_replied(1) [where message = "str '' Hi ''" and chunks = "[]"])
       (simp_all add: valid_hi cid_hi grown_session_payload, simp_all add: request_hi_def env_ok_def)
  thus ?thesis
    by (simp add: grown_store_def first_turns_def turn_def env_ok_def userMessage_def
        assistantMessage_def)
qed

text \<open>
  C2, as the code has it.  For a request with a valid message on which the provider
  throws, in either mode: no assistant turn is appended.  The history stored for the
  session is the trimmed sequence, whose last turn is the user turn of the request,
  with the activity time of the trimming.  The failure goes to the caller: in
  streaming mode as the chunks received so far followed by one error event with the
  text \<^verbatim>\<open>Failed to generate response\<close>, otherwise as the error
  \<^verbatim>\<open>Failed to generate response from AI\<close> handed to \<^verbatim>\<open>next\<close>.
\<close>

theorem provider_failure_appends_nothing:
  assumes "req_message req = JSString message"
    and "valid (validateMessage (JSString message))"
    and "cid = currentConversationId env req"
    and "before = messages (conversationData env conversations cid)"
    and "payload = trimConversation (before @ [userMessage env cid message])"
    and "if req_stream req then chatCompletionStream env payload = StreamThrew chunks
         else chatCompletion env payload = Threw"
  shows "map_of (store (chat_post env req conversations)) cid =
           Some \<lparr>messages = payload, lastActivity = date_trimmed env\<rparr> \<and>
         last payload = userMessage env cid message \<and>
         response (chat_post env req conversations) =
           (if req_stream req
            then EventStream (map (\<lambda>chunk. ChunkEvent chunk (uuid_assistant env) cid) chunks @
                              [ErrorEvent (str ''Failed to generate response'')])
            else NextError (str ''Failed to generate response from AI'') None)"
proof -
  have p: "payload = trimConversation
      (messages (conversationData env conversations cid) @ [userMessage env cid message])"
    using assms(4,5) by simp
  have "role (userMessage env cid message) \<noteq> System"
    by (simp add: userMessage_def)
  hence "last payload = userMessage env cid message"
    unfolding assms(5) by (rule trimConversation_last)
  thus ?thesis
    using chat_post_failed [OF assms(1,2,3) p assms(6)] by blast
qed

text \<open>
  A streamed request on the session of two long turns, with a provider that throws
  after one chunk.
\<close>

theorem provider_failure_appends_nothing_witness:
  "valid (validateMessage (JSString (str '' Hi ''))) \<and>
   map_of (store (chat_post env_down (request_hi True) grown_store)) (str ''c1'') =
     Some \<lparr>messages = [turn ''s'' System (str ''Be brief.''), turn ''a1'' Assistant (letters 8000),
                       userMessage env_down (str ''c1'') (str '' Hi '')],
           lastActivity = 102\<rparr> \<and>
   response (chat_post env_down (request_hi True) grown_store) =
     EventStream [ChunkEvent (str ''o'') (str ''a2'') (str ''c1''),
                  ErrorEvent (str ''Failed to generate response'')]"
proof -
  let ?payload = "[turn ''s'' System (str ''Be brief.''), turn ''a1'' Assistant (letters 8000),
                   userMessage env_down (str ''c1'') (str '' Hi '')]"
  have a: "req_message (request_hi True) = JSString (str '' Hi '')"
    by (simp add: request_hi_def)
  have c: "str ''c1'' = currentConversationId env_down (request_hi True)"
    by (simp add: cid_hi)
  have p: "?payload = trimConversation (messages (conversationData env_down grown_store (str ''c1'')) @
             [userMessage env_down (str ''c1'') (str '' Hi '')])"
    by (simp add: grown_session_payload)
  have f: "if req_stream (request_hi True)
           then chatCompletionStream env_down ?payload = StreamThrew [str ''o'']
           else chatCompletion env_down ?payload = Threw"
    by (simp add: request_hi_def env_down_def)
  show ?thesis
    using valid_hi provider_failure_appends_nothing [OF a valid_hi c refl p f]
    by (simp add: env_down_def request_hi_def)
qed

text \<open>
  C2 as stated fails on a first message for a new conversation when the provider
  throws: in both modes the stored history is the system turn and the user turn,
  with no assistant turn.
\<close>

theorem provider_failure_counterexample:
  "map_of (store (chat_post env_down (request_hi False) [])) (str ''c1'') =
     Some \<lparr>messages = [addSystemMessage env_down, userMessage env_down (str ''c1'') (str '' Hi '')],
           lastActivity = 102\<rparr> \<and>
   map_of (store (chat_post env_down (request_hi True) [])) (str ''c1'') =
     Some \<lparr>messages = [addSystemMessage env_down, userMessage env_down (str ''c1'') (str '' Hi '')],
           lastActivity = 102\<rparr> \<and>
   map role [addSystemMessage env_down, userMessage env_down (str ''c1'') (str '' Hi '')] =
     [System, User]"
proof -
  have "map_of (store (chat_post env_down (request_hi streaming) [])) (str ''c1'') =
     Some \<lparr>messages = [addSystemMessage env_down, userMessage env_down (str ''c1'') (str '' Hi '')],
           lastActivity = date_trimmed env_down\<rparr>" for streaming
    by (rule chat_post_failed(1) [where message = "str '' Hi ''" and chunks = "[str ''o'']"])
       (simp_all add: valid_hi cid_hi new_session_payload, simp_all add: request_hi_def env_down_def)
  thus ?thesis
    by (simp add: env_down_def addSystemMessage_def userMessage_def)
qed

end
